theory Spec2Isabelle
  imports Main "HOL-Library.Sublist" "HOL-Library.Multiset"
begin

section \<open>Python values and library functions used by archive\_desktop.py\<close>

text \<open>
  The exceptions the script can meet. \<open>IOError\<close> and \<open>OSError\<close> are kept apart, since the
  script's only handler (line 133) catches \<open>IOError\<close> alone. \<open>UnicodeError\<close> stands for
  both \<open>UnicodeDecodeError\<close> and \<open>UnicodeEncodeError\<close>.
\<close>

datatype error =
    IOError
  | OSError
  | ReadError
  | ValueError
  | NameError string
  | UnicodeError
  | NoAuthHandlerFound
  | S3ResponseError

subsection \<open>\<open>str\<close> of an integer\<close>

definition digit :: "nat \<Rightarrow> char" where
  "digit d = ''0123456789'' ! d"

function str_nat :: "nat \<Rightarrow> string" where
  "str_nat n = (if n < 10 then [digit n] else str_nat (n div 10) @ [digit (n mod 10)])"
  by pat_completeness auto
termination
  by (relation "measure (\<lambda>n. n)") auto

declare str_nat.simps [simp del]

definition str_int :: "int \<Rightarrow> string" where
  "str_int i = (if i < 0 then CHR ''-'' # str_nat (nat (- i)) else str_nat (nat i))"

subsection \<open>\<open>strftime('%Y-%m-%d')\<close>\<close>

record date =
  year :: nat
  month :: nat
  day :: nat

text \<open>\<open>%m\<close> and \<open>%d\<close> are zero-padded to two digits; \<open>%Y\<close> is the year in decimal.\<close>

definition zfill :: "nat \<Rightarrow> string \<Rightarrow> string" where
  "zfill w s = replicate (w - length s) CHR ''0'' @ s"

definition strftime_Ymd :: "date \<Rightarrow> string" where
  "strftime_Ymd d =
     str_nat (year d) @ ''-'' @ zfill 2 (str_nat (month d)) @ ''-'' @ zfill 2 (str_nat (day d))"

subsection \<open>\<open>os.path.join\<close> (posixpath)\<close>

definition startswith :: "string \<Rightarrow> char \<Rightarrow> bool" where
  "startswith s c = (case s of [] \<Rightarrow> False | x # _ \<Rightarrow> x = c)"

definition endswith :: "string \<Rightarrow> char \<Rightarrow> bool" where
  "endswith s c = (case rev s of [] \<Rightarrow> False | x # _ \<Rightarrow> x = c)"

text \<open>
  \<^verbatim>\<open>
  def join(a, *p):
      path = a
      for b in p:
          if b.startswith('/'):
              path = b
          elif path == '' or path.endswith('/'):
              path += b
          else:
              path += '/' + b
      return path
  \<close>
\<close>

fun os_path_join :: "string \<Rightarrow> string list \<Rightarrow> string" where
  "os_path_join path [] = path"
| "os_path_join path (b # p) =
     os_path_join
       (if startswith b CHR ''/'' then b
        else if path = [] \<or> endswith path CHR ''/'' then path @ b
        else path @ ''/'' @ b) p"

subsection \<open>\<open>str.strip\<close> and \<open>str.split\<close>\<close>

definition isspace :: "char \<Rightarrow> bool" where
  "isspace c = (c \<in> set [CHR 0x09, CHR 0x0A, CHR 0x0B, CHR 0x0C, CHR 0x0D, CHR 0x20])"

definition strip :: "string \<Rightarrow> string" where
  "strip s = rev (dropWhile isspace (rev (dropWhile isspace s)))"

fun split_from :: "char \<Rightarrow> string \<Rightarrow> string \<Rightarrow> string list" where
  "split_from sep cur [] = [cur]"
| "split_from sep cur (x # xs) =
     (if x = sep then cur # split_from sep [] xs else split_from sep (cur @ [x]) xs)"

definition split :: "char \<Rightarrow> string \<Rightarrow> string list" where
  "split sep s = split_from sep [] s"

subsection \<open>Text and bytes\<close>

text \<open>A byte below 128: its highest bit is clear.\<close>

definition is_ascii :: "char \<Rightarrow> bool" where
  "is_ascii c = (\<not> digit7 c)"


section \<open>The world the script runs in\<close>

text \<open>
  The local file system maps a path to a regular file (its bytes) or to a directory
  (its entries, by name, each again a file or a directory). There are no symbolic links
  and no permissions in this model.
\<close>

datatype tree = Leaf string | Node "(string \<times> tree) list"

text \<open>
  What \<open>tarfile\<close> reports for one member of an archive. Names and file contents are byte
  strings.
\<close>

record tar_member =
  member_name :: string
  member_size :: nat

text \<open>
  One clock reading: the local calendar date \<open>datetime.datetime.now()\<close> shows and the
  value of \<open>int(time.time())\<close> at that instant.
\<close>

record reading =
  today :: date
  epoch :: int

text \<open>An object write as the script hands it to boto: key, body, headers, canned policy.\<close>

record s3_put =
  s3_key :: string
  s3_body :: string
  s3_headers :: "(string \<times> string) list"
  s3_policy :: string

datatype s3_request = GetBucket string | PutObject s3_put

type_synonym credentials = "string option \<times> string option"

text \<open>
  Everything the run does that is visible from outside, in the order it happens: calls to
  the logger (whatever level is set, which only filters what is printed), the start of
  the subprocess, the opening of the archive for reading, and accepted object writes.
\<close>

datatype event =
    LogDebug string
  | LogInfo string
  | Popen string string
  | TarfileOpen string
  | S3Put s3_put

text \<open>
  \<open>tmp_names\<close> are the candidate names \<open>mkstemp\<close> will draw, \<open>clock\<close> the readings of
  the host clock (\<open>ticks\<close> counts the readings taken so far), \<open>s3_accepts\<close> the storage
  service's answer to a request made with given credentials.
\<close>

record world =
  fs :: "string \<rightharpoonup> tree"
  home :: string
  tmp_names :: "string list"
  clock :: "nat \<Rightarrow> reading"
  ticks :: nat
  s3_accepts :: "credentials \<Rightarrow> s3_request \<Rightarrow> bool"
  trace :: "event list"

text \<open>
  The programs and libraries outside the repository: path canonicalisation, the shell
  started by \<open>subprocess.Popen(..., shell=True)\<close> (command, working directory, file
  system before; file system after and exit status), the tar reader, boto's URL signer,
  the names beyond ASCII that the interpreter can format and write to a text file (none
  under Python 2, where the format decodes the byte name as ASCII; under Python 3 those
  the locale's encoding holds), the credentials boto finds by itself in the environment
  and its configuration files, and the level names the \<open>logging\<close> module knows.
\<close>

record host =
  realpath :: "string \<Rightarrow> string"
  sh :: "string \<Rightarrow> string \<Rightarrow> (string \<rightharpoonup> tree) \<Rightarrow> (string \<rightharpoonup> tree) \<times> int"
  tarfile_getmembers :: "string \<Rightarrow> tar_member list option"
  generate_url :: "string \<Rightarrow> string \<Rightarrow> nat \<Rightarrow> string"
  text_encodes :: "string \<Rightarrow> bool"
  boto_config :: credentials
  logging_levels :: "string list"

text \<open>A name of ASCII characters can always be formatted and written.\<close>

definition writable_name :: "host \<Rightarrow> string \<Rightarrow> bool" where
  "writable_name h s = (list_all is_ascii s \<or> text_encodes h s)"

type_synonym 'a result = "(error + 'a) \<times> world"

definition emit :: "event \<Rightarrow> world \<Rightarrow> world" where
  "emit e w = w\<lparr>trace := trace w @ [e]\<rparr>"

definition datetime_now :: "world \<Rightarrow> date \<times> world" where
  "datetime_now w = (today (clock w (ticks w)), w\<lparr>ticks := Suc (ticks w)\<rparr>)"

definition time_time :: "world \<Rightarrow> int \<times> world" where
  "time_time w = (epoch (clock w (ticks w)), w\<lparr>ticks := Suc (ticks w)\<rparr>)"

text \<open>
  \<open>tempfile.mkstemp()\<close>: candidate names are tried until one does not exist; that file
  is created empty. Running out of candidates is an \<open>IOError\<close>.
\<close>

definition mkstemp :: "world \<Rightarrow> string result" where
  "mkstemp w =
     (case dropWhile (\<lambda>n. fs w n \<noteq> None) (tmp_names w) of
        [] \<Rightarrow> (Inl IOError, w\<lparr>tmp_names := []\<rparr>)
      | n # rest \<Rightarrow> (Inr n, w\<lparr>fs := (fs w)(n \<mapsto> Leaf []), tmp_names := rest\<rparr>))"

text \<open>\<open>os.path.expanduser\<close> on a path that begins with \<open>~/\<close> (the only use in the script).\<close>

definition expanduser :: "world \<Rightarrow> string \<Rightarrow> string" where
  "expanduser w path =
     (if startswith path CHR ''~'' \<and> startswith (drop 1 path) CHR ''/''
      then rev (dropWhile (\<lambda>c. c = CHR ''/'') (rev (home w))) @ drop 1 path
      else path)"


section \<open>DesktopArchiveManager\<close>

record manager =
  local_path :: string
  remote_path :: string
  bucket :: string
  boto :: credentials

text \<open>Lines 68-73. Every call reads the clock.\<close>

definition get_prefix :: "manager \<Rightarrow> string list \<Rightarrow> world \<Rightarrow> string \<times> world" where
  "get_prefix m components w =
     (case datetime_now w of
        (d, w') \<Rightarrow> (os_path_join (remote_path m) (strftime_Ymd d # components), w'))"

text \<open>Lines 54-66. The header dictionary is built, reading the clock, before the file is opened.\<close>

definition store_file_at_path :: "manager \<Rightarrow> string \<Rightarrow> string \<Rightarrow> world \<Rightarrow> string result" where
  "store_file_at_path m local remote w0 =
     (let w1 = emit (LogDebug (''Uploading file '' @ local @ '' to '' @ remote @ ''.'')) w0
      in case time_time w1 of (t, w2) \<Rightarrow>
        (case fs w2 local of
           Some (Leaf contents) \<Rightarrow>
             (let put = \<lparr>s3_key = remote, s3_body = contents,
                         s3_headers = [(''Content-Type'', ''application/octet-stream''),
                                       (''x-amz-meta-mtime'', str_int t)],
                         s3_policy = ''private''\<rparr>
              in if s3_accepts w2 (boto m) (PutObject put)
                 then (Inr remote, emit (S3Put put) w2)
                 else (Inl S3ResponseError, w2))
         | _ \<Rightarrow> (Inl IOError, w2)))"

text \<open>Lines 75-89.\<close>

definition create_directory :: "manager \<Rightarrow> string \<Rightarrow> world \<Rightarrow> unit result" where
  "create_directory m prefix' w0 =
     (case time_time w0 of (t, w1) \<Rightarrow>
        (let put = \<lparr>s3_key = prefix', s3_body = [],
                    s3_headers = [(''Content-Type'', ''application/x-directory''),
                                  (''x-amz-meta-gid'', ''20''),
                                  (''x-amz-meta-uid'', ''501''),
                                  (''x-amz-meta-mode'', ''16877''),
                                  (''x-amz-meta-mtime'', str_int t)],
                    s3_policy = ''private''\<rparr>
         in if s3_accepts w1 (boto m) (PutObject put)
            then (Inr (), emit (LogDebug (''Created directory '' @ prefix' @ ''.''))
                            (emit (S3Put put) w1))
            else (Inl S3ResponseError, w1)))"

text \<open>
  Lines 91-104. \<open>Popen\<close> raises \<open>OSError\<close> when the working directory is not a directory.
  The value of \<open>proc.wait()\<close> is dropped.
\<close>

definition create_archive :: "host \<Rightarrow> string \<Rightarrow> world \<Rightarrow> string result" where
  "create_archive h path w0 =
     (let w1 = emit (LogDebug ''Creating archive.'') w0
      in case mkstemp w1 of
           (Inl e, w2) \<Rightarrow> (Inl e, w2)
         | (Inr tempfilename, w2) \<Rightarrow>
             (let cmd = ''tar -zcvf '' @ tempfilename @ '' *'';
                  cwd = realpath h path
              in case fs w2 cwd of
                   Some (Node entries) \<Rightarrow>
                     (let w3 = emit (Popen cmd cwd) w2;
                          w4 = emit (LogDebug ''Waiting for archive to be completed.'') w3;
                          (fs', status) = sh h cmd cwd (fs w4);
                          w5 = w4\<lparr>fs := fs'\<rparr>;
                          w6 = emit (LogDebug (''Archive written to '' @ tempfilename @ ''.'')) w5
                      in (Inr tempfilename, w6))
                 | _ \<Rightarrow> (Inl OSError, w2)))"

text \<open>
  Lines 112-118: the loop appends one formatted line per member to the open file. A name
  that cannot be formatted and written raises; the lines before it stay in the file, which
  the \<open>with\<close> statement closes.
\<close>

fun write_members :: "host \<Rightarrow> tar_member list \<Rightarrow> string \<Rightarrow> error option \<times> string" where
  "write_members h [] out = (None, out)"
| "write_members h (member # rest) out =
     (if writable_name h (member_name member)
      then write_members h rest
             (out @ (member_name member @ [CHR 0x09] @ str_nat (member_size member) @ [CHR 0x0A]))
      else (Some UnicodeError, out))"

text \<open>
  Lines 106-121. \<open>tarfile.open\<close> raises \<open>IOError\<close> on a missing file or a directory and
  \<open>ReadError\<close> on bytes that are no tar archive; a failure while writing leaves the
  temporary file with what was written and skips the last log line.
\<close>

definition create_index_from_archive :: "host \<Rightarrow> string \<Rightarrow> world \<Rightarrow> string result" where
  "create_index_from_archive h archive_path w0 =
     (let w1 = emit (LogDebug ''Generating archive index.'') w0
      in case mkstemp w1 of
           (Inl e, w2) \<Rightarrow> (Inl e, w2)
         | (Inr tempfilename, w2) \<Rightarrow>
             (case fs w2 archive_path of
                Some (Leaf bytes) \<Rightarrow>
                  (let w3 = emit (TarfileOpen archive_path) w2
                   in case tarfile_getmembers h bytes of
                        None \<Rightarrow> (Inl ReadError, w3)
                      | Some members \<Rightarrow>
                          (case write_members h members [] of
                             (Some e, out) \<Rightarrow>
                               (Inl e, w3\<lparr>fs := (fs w3)(tempfilename \<mapsto> Leaf out)\<rparr>)
                           | (None, out) \<Rightarrow>
                               (let w4 = w3\<lparr>fs := (fs w3)(tempfilename \<mapsto> Leaf out)\<rparr>;
                                    w5 = emit (LogDebug (''Index written to '' @ tempfilename @ ''.'')) w4
                                in (Inr tempfilename, w5))))
              | _ \<Rightarrow> (Inl IOError, w2)))"

text \<open>Lines 31-52.\<close>

definition archive_files :: "host \<Rightarrow> manager \<Rightarrow> world \<Rightarrow> unit result" where
  "archive_files h m w0 =
     (case create_archive h (local_path m) w0 of
        (Inl e, w1) \<Rightarrow> (Inl e, w1)
      | (Inr archive_path, w1) \<Rightarrow>
     (case create_index_from_archive h archive_path w1 of
        (Inl e, w2) \<Rightarrow> (Inl e, w2)
      | (Inr index_path, w2) \<Rightarrow>
     (case get_prefix m [] w2 of (prefix', w3) \<Rightarrow>
     (case create_directory m prefix' w3 of
        (Inl e, w4) \<Rightarrow> (Inl e, w4)
      | (Inr u, w4) \<Rightarrow>
     (case get_prefix m [''archive.tar.gz''] w4 of (archive_key, w5) \<Rightarrow>
     (case store_file_at_path m archive_path archive_key w5 of
        (Inl e, w6) \<Rightarrow> (Inl e, w6)
      | (Inr archive, w6) \<Rightarrow>
     (let w7 = emit (LogInfo (''Archive stored: '' @ generate_url h (bucket m) archive (24*60*60))) w6
      in case get_prefix m [''index.tsv.txt''] w7 of (index_key, w8) \<Rightarrow>
     (case store_file_at_path m index_path index_key w8 of
        (Inl e, w9) \<Rightarrow> (Inl e, w9)
      | (Inr index, w9) \<Rightarrow>
     (let w10 = emit (LogInfo (''Index stored: '' @ generate_url h (bucket m) index (24*60*60))) w9;
          w11 = emit (LogInfo ''Files archived'') w10
      in (Inr (), w11))))))))))"


section \<open>The script body (lines 124-186)\<close>

text \<open>Lines 124-127. Nothing is written; the file may be missing or a directory.\<close>

definition get_access_key_and_secret_from_s3fs :: "world \<Rightarrow> error + string list" where
  "get_access_key_and_secret_from_s3fs w =
     (case fs w (expanduser w ''~/.passwd-s3fs'') of
        Some (Leaf contents) \<Rightarrow> Inr (split CHR '':'' (strip contents))
      | _ \<Rightarrow> Inl IOError)"

text \<open>
  The module's global names and their values (\<open>None\<close> or a string). Lines 131-135: the
  tuple assignment needs exactly two fields, and the handler binds the names the source
  binds.
\<close>

type_synonym namespace = "string \<rightharpoonup> string option"

definition load_credential_defaults :: "world \<Rightarrow> error + namespace" where
  "load_credential_defaults w =
     (case get_access_key_and_secret_from_s3fs w of
        Inr [a, s] \<Rightarrow> Inr [''access_default'' \<mapsto> Some a, ''secret_default'' \<mapsto> Some s]
      | Inr _ \<Rightarrow> Inl ValueError
      | Inl IOError \<Rightarrow> Inr [''access_default'' \<mapsto> None, ''key_default'' \<mapsto> None]
      | Inl e \<Rightarrow> Inl e)"

text \<open>Reading a global name that was never bound raises \<open>NameError\<close>.\<close>

definition load_name :: "namespace \<Rightarrow> string \<Rightarrow> error + string option" where
  "load_name ns x = (case ns x of Some v \<Rightarrow> Inr v | None \<Rightarrow> Inl (NameError x))"

text \<open>What the command line gave; an option left out is \<open>None\<close> and takes its default.\<close>

record args =
  arg_bucket :: string
  arg_path :: "string option"
  arg_aws_access_key :: "string option"
  arg_aws_secret_key :: "string option"
  arg_bucket_prefix :: "string option"
  arg_loglevel :: "string option"

text \<open>
  Lines 18-29. \<open>S3Connection\<close> takes a key that is \<open>None\<close> from what boto finds by itself
  and raises \<open>NoAuthHandlerFound\<close> when a key is still missing; \<open>get_bucket\<close> is then the
  first request to the storage service.
\<close>

definition init :: "host \<Rightarrow> string \<Rightarrow> string option \<Rightarrow> string option \<Rightarrow> string \<Rightarrow> string
    \<Rightarrow> world \<Rightarrow> manager result" where
  "init h bucket_name aws_access_key aws_secret_key local remote w =
     (let access = (case aws_access_key of Some k \<Rightarrow> Some k | None \<Rightarrow> fst (boto_config h));
          secret = (case aws_secret_key of Some k \<Rightarrow> Some k | None \<Rightarrow> snd (boto_config h))
      in if access = None \<or> secret = None then (Inl NoAuthHandlerFound, w)
         else if s3_accepts w (access, secret) (GetBucket bucket_name)
         then (Inr \<lparr>local_path = local, remote_path = remote, bucket = bucket_name,
                    boto = (access, secret)\<rparr>, w)
         else (Inl S3ResponseError, w))"

text \<open>
  Lines 130-186. The defaults handed to \<open>add_argument\<close> are evaluated when the parser is
  built (lines 147, 153, 159), before the command line is looked at. \<open>logging.basicConfig\<close>
  raises \<open>ValueError\<close> for a level name that \<open>logging\<close> does not know (lines 175-177).
\<close>

definition main :: "host \<Rightarrow> args \<Rightarrow> world \<Rightarrow> unit result" where
  "main h a w =
     (case load_credential_defaults w of
        Inl e \<Rightarrow> (Inl e, w)
      | Inr ns \<Rightarrow>
     (let path_default = expanduser w ''~/Desktop/''
      in case load_name ns ''access_default'' of
        Inl e \<Rightarrow> (Inl e, w)
      | Inr access_default \<Rightarrow>
     (case load_name ns ''secret_default'' of
        Inl e \<Rightarrow> (Inl e, w)
      | Inr secret_default \<Rightarrow>
     (let path = (case arg_path a of Some p \<Rightarrow> p | None \<Rightarrow> path_default);
          aws_access_key = (case arg_aws_access_key a of Some k \<Rightarrow> Some k | None \<Rightarrow> access_default);
          aws_secret_key = (case arg_aws_secret_key a of Some k \<Rightarrow> Some k | None \<Rightarrow> secret_default);
          bucket_prefix = (case arg_bucket_prefix a of Some p \<Rightarrow> p | None \<Rightarrow> ''desktop'');
          loglevel = (case arg_loglevel a of Some l \<Rightarrow> l | None \<Rightarrow> ''INFO'')
      in if loglevel \<notin> set (logging_levels h) then (Inl ValueError, w)
         else case init h (arg_bucket a) aws_access_key aws_secret_key path bucket_prefix w of
                (Inl e, w') \<Rightarrow> (Inl e, w')
              | (Inr manager, w') \<Rightarrow> archive_files h manager w'))))"


section \<open>The command \<open>tar -zcvf <file> *\<close>\<close>

text \<open>
  What line 96 asks of the shell and of tar. Pathname expansion of \<open>*\<close> yields the names
  in the working directory that do not begin with a period; when no name matches, the
  pattern stays as it is. Tar in create mode walks each operand, a directory and all its
  entries, and names every member by its path relative to the working directory.
\<close>

fun tar_walk :: "string \<Rightarrow> tree \<Rightarrow> tar_member list"
  and tar_walk_entries :: "string \<Rightarrow> (string \<times> tree) list \<Rightarrow> tar_member list" where
  "tar_walk p (Leaf contents) = [\<lparr>member_name = p, member_size = length contents\<rparr>]"
| "tar_walk p (Node entries) = \<lparr>member_name = p, member_size = 0\<rparr> # tar_walk_entries p entries"
| "tar_walk_entries p [] = []"
| "tar_walk_entries p ((n, t) # entries) =
     tar_walk (p @ ''/'' @ n) t @ tar_walk_entries p entries"

fun tar_operands :: "(string \<times> tree) list \<Rightarrow> tar_member list" where
  "tar_operands [] = []"
| "tar_operands ((n, t) # entries) = tar_walk n t @ tar_operands entries"

definition glob_star :: "(string \<times> tree) list \<Rightarrow> (string \<times> tree) list" where
  "glob_star entries = filter (\<lambda>(n, t). \<not> startswith n CHR ''.'') entries"





section \<open>Reading the trace\<close>

text \<open>The object writes among a list of events, and the steps of the workflow among them.\<close>

fun puts :: "event list \<Rightarrow> s3_put list" where
  "puts [] = []"
| "puts (S3Put p # es) = p # puts es"
| "puts (e # es) = puts es"

datatype step = RunTar | ReadTar | PutMarker | PutFile

fun steps :: "event list \<Rightarrow> step list" where
  "steps [] = []"
| "steps (Popen cmd cwd # es) = RunTar # steps es"
| "steps (TarfileOpen p # es) = ReadTar # steps es"
| "steps (S3Put p # es) =
     (if map_of (s3_headers p) ''Content-Type'' = Some ''application/x-directory''
      then PutMarker else PutFile) # steps es"
| "steps (e # es) = steps es"

text \<open>The events a run added to the trace it started with.\<close>

definition since :: "world \<Rightarrow> world \<Rightarrow> event list" where
  "since w w' = drop (length (trace w)) (trace w')"


section \<open>A concrete host and world\<close>

text \<open>
  The example host's archive format: after a header, each member is its name, every
  character preceded by \<open>n\<close>, then its size in strokes, then a semicolon.
\<close>

definition ex_targz_member :: "tar_member \<Rightarrow> string" where
  "ex_targz_member mb =
     concat (map (\<lambda>c. [CHR ''n'', c]) (member_name mb)) @
     replicate (member_size mb) CHR ''#'' @ '';''"

definition ex_targz :: "tar_member list \<Rightarrow> string" where
  "ex_targz ms = ''TGZ:'' @ concat (map ex_targz_member ms)"

fun ex_untar_from :: "string \<Rightarrow> nat \<Rightarrow> tar_member list \<Rightarrow> string \<Rightarrow> tar_member list option" where
  "ex_untar_from nm sz acc [] = (if nm = [] \<and> sz = 0 then Some acc else None)"
| "ex_untar_from nm sz acc (c # rest) =
     (if c = CHR ''#'' then ex_untar_from nm (Suc sz) acc rest
      else if c = CHR '';''
        then ex_untar_from [] 0 (acc @ [\<lparr>member_name = nm, member_size = sz\<rparr>]) rest
      else if c = CHR ''n''
        then (case rest of [] \<Rightarrow> None | d # rest' \<Rightarrow> ex_untar_from (nm @ [d]) sz acc rest')
      else None)"

definition ex_untar :: "string \<Rightarrow> tar_member list option" where
  "ex_untar b = (if take 4 b = ''TGZ:'' then ex_untar_from [] 0 [] (drop 4 b) else None)"

text \<open>
  The example host's shell knows the one command; it fails when the archive name is a
  directory or the working directory is none.
\<close>

definition ex_sh :: "string \<Rightarrow> string \<Rightarrow> (string \<rightharpoonup> tree) \<Rightarrow> (string \<rightharpoonup> tree) \<times> int" where
  "ex_sh cmd cwd f =
     (if 12 \<le> length cmd \<and> take 10 cmd = ''tar -zcvf '' \<and> drop (length cmd - 2) cmd = '' *''
      then
        (let archive = take (length cmd - 12) (drop 10 cmd)
         in case f archive of
              Some (Node d) \<Rightarrow> (f, 2)
            | _ \<Rightarrow>
              (case f cwd of
                 Some (Node entries) \<Rightarrow>
                   (f(archive \<mapsto> Leaf (ex_targz (tar_operands (glob_star entries)))),
                    if glob_star entries = [] then 2 else 0)
               | _ \<Rightarrow> (f, 2)))
      else (f, 127))"

definition ex_members :: "tar_member list" where
  "ex_members = [\<lparr>member_name = ''a.txt'', member_size = 10\<rparr>,
                 \<lparr>member_name = ''sub'', member_size = 0\<rparr>,
                 \<lparr>member_name = ''sub/b.txt'', member_size = 20\<rparr>]"

definition ex_host :: host where
  "ex_host = \<lparr>realpath = (\<lambda>p. p),
              sh = ex_sh,
              tarfile_getmembers = ex_untar,
              generate_url = (\<lambda>b k n. ''https://'' @ b @ ''.s3.amazonaws.com/'' @ k),
              text_encodes = (\<lambda>s. False),
              boto_config = (None, None),
              logging_levels = [''CRITICAL'', ''ERROR'', ''WARN'', ''WARNING'', ''INFO'',
                                ''DEBUG'', ''NOTSET'']\<rparr>"

definition ex_desktop :: "(string \<times> tree) list" where
  "ex_desktop = [(''.DS_Store'', Leaf ''123456''),
                 (''a.txt'', Leaf ''0123456789''),
                 (''sub'', Node [(''b.txt'', Leaf ''01234567890123456789'')])]"

definition ex_manager :: manager where
  "ex_manager = \<lparr>local_path = ''/home/u/Desktop'', remote_path = ''desktop'',
                 bucket = ''backups'', boto = (Some ''AK'', Some ''SK'')\<rparr>"

definition ex_world :: "(nat \<Rightarrow> reading) \<Rightarrow> world" where
  "ex_world c = \<lparr>fs = [''/home/u/Desktop'' \<mapsto> Node ex_desktop], home = ''/home/u'',
                 tmp_names = [''/tmp/tmpA'', ''/tmp/tmpB''],
                 clock = c, ticks = 0, s3_accepts = (\<lambda>cr rq. True), trace = []\<rparr>"

text \<open>A clock that stays on 5 March 2024, and one that passes midnight after two readings.\<close>

definition clock_day :: "nat \<Rightarrow> reading" where
  "clock_day n = \<lparr>today = \<lparr>year = 2024, month = 3, day = 5\<rparr>, epoch = 1709640000 + int n\<rparr>"

definition clock_midnight :: "nat \<Rightarrow> reading" where
  "clock_midnight n =
     (if n < 2 then \<lparr>today = \<lparr>year = 2024, month = 3, day = 5\<rparr>, epoch = 1709683198 + int n\<rparr>
      else \<lparr>today = \<lparr>year = 2024, month = 3, day = 6\<rparr>, epoch = 1709683198 + int n\<rparr>)"

definition ex_args :: args where
  "ex_args = \<lparr>arg_bucket = ''backups'', arg_path = Some ''/home/u/Desktop'',
              arg_aws_access_key = Some ''AK'', arg_aws_secret_key = Some ''SK'',
              arg_bucket_prefix = None, arg_loglevel = None\<rparr>"


section \<open>Names for the objects and keys of a run\<close>

text \<open>
  The object the directory marker is written as, the object a file is written as, and the
  key \<open>get_prefix\<close> builds from the \<open>n\<close>-th clock reading after the run's start.
\<close>

abbreviation marker_object :: "string \<Rightarrow> int \<Rightarrow> s3_put" where
  "marker_object k t \<equiv>
     \<lparr>s3_key = k, s3_body = [],
      s3_headers = [(''Content-Type'', ''application/x-directory''),
                    (''x-amz-meta-gid'', ''20''),
                    (''x-amz-meta-uid'', ''501''),
                    (''x-amz-meta-mode'', ''16877''),
                    (''x-amz-meta-mtime'', str_int t)],
      s3_policy = ''private''\<rparr>"

abbreviation file_object :: "string \<Rightarrow> string \<Rightarrow> int \<Rightarrow> s3_put" where
  "file_object k contents t \<equiv>
     \<lparr>s3_key = k, s3_body = contents,
      s3_headers = [(''Content-Type'', ''application/octet-stream''),
                    (''x-amz-meta-mtime'', str_int t)],
      s3_policy = ''private''\<rparr>"

abbreviation key_at :: "manager \<Rightarrow> world \<Rightarrow> nat \<Rightarrow> string list \<Rightarrow> string" where
  "key_at m w n cs \<equiv>
     os_path_join (remote_path m) (strftime_Ymd (today (clock w (ticks w + n))) # cs)"





definition spec_world :: world where
  "spec_world = \<lparr>fs = [''/tmp/in.tar.gz'' \<mapsto> Leaf ''two members''], home = ''/home/u'',
                 tmp_names = [''/tmp/in.tar.gz'', ''/tmp/tmpC''],
                 clock = clock_day, ticks = 0, s3_accepts = (\<lambda>cr rq. True), trace = []\<rparr>"


section \<open>Traces\<close>

lemma puts_append: "puts (xs @ ys) = puts xs @ puts ys"
  by (induction xs rule: puts.induct) simp_all

lemma steps_append: "steps (xs @ ys) = steps xs @ steps ys"
  by (induction xs rule: steps.induct) simp_all

lemma since_append: "trace w' = trace w @ evs \<Longrightarrow> since w w' = evs"
  by (simp add: since_def)

lemma create_archive_Inr:
  assumes "create_archive h path w = (Inr t, w')"
  shows "trace w' = trace w @
           [LogDebug ''Creating archive.'',
            Popen (''tar -zcvf '' @ t @ '' *'') (realpath h path),
            LogDebug ''Waiting for archive to be completed.'',
            LogDebug (''Archive written to '' @ t @ ''.'')]"
    and "ticks w' = ticks w" and "clock w' = clock w" and "s3_accepts w' = s3_accepts w"
  using assms
  by (auto simp: create_archive_def Let_def emit_def mkstemp_def
           split: prod.splits sum.splits option.splits tree.splits list.splits)

lemma create_archive_Inl:
  assumes "create_archive h path w = (Inl e, w')"
  shows "trace w' = trace w @ [LogDebug ''Creating archive.'']"
  using assms
  by (auto simp: create_archive_def Let_def emit_def mkstemp_def
           split: prod.splits sum.splits option.splits tree.splits list.splits)

lemma create_index_Inr:
  assumes "create_index_from_archive h a w = (Inr t, w')"
  shows "trace w' = trace w @
           [LogDebug ''Generating archive index.'', TarfileOpen a,
            LogDebug (''Index written to '' @ t @ ''.'')]"
    and "ticks w' = ticks w" and "clock w' = clock w" and "s3_accepts w' = s3_accepts w"
  using assms
  by (auto simp: create_index_from_archive_def Let_def emit_def mkstemp_def
           split: prod.splits sum.splits option.splits tree.splits list.splits)

lemma create_index_Inl:
  assumes "create_index_from_archive h a w = (Inl e, w')"
  shows "trace w' = trace w @ [LogDebug ''Generating archive index.''] \<or>
         trace w' = trace w @ [LogDebug ''Generating archive index.'', TarfileOpen a]"
  using assms
  by (auto simp: create_index_from_archive_def Let_def emit_def mkstemp_def
           split: prod.splits sum.splits option.splits tree.splits list.splits)

lemma get_prefix_eq:
  "get_prefix m cs w =
     (os_path_join (remote_path m) (strftime_Ymd (today (clock w (ticks w))) # cs),
      w\<lparr>ticks := Suc (ticks w)\<rparr>)"
  by (simp add: get_prefix_def datetime_now_def)


lemma create_directory_Inr:
  assumes "create_directory m p w = (Inr u, w')"
  shows "trace w' = trace w @
           [S3Put \<lparr>s3_key = p, s3_body = [],
                    s3_headers = [(''Content-Type'', ''application/x-directory''),
                                  (''x-amz-meta-gid'', ''20''),
                                  (''x-amz-meta-uid'', ''501''),
                                  (''x-amz-meta-mode'', ''16877''),
                                  (''x-amz-meta-mtime'', str_int (epoch (clock w (ticks w))))],
                    s3_policy = ''private''\<rparr>,
            LogDebug (''Created directory '' @ p @ ''.'')]"
    and "ticks w' = Suc (ticks w)" and "clock w' = clock w" and "s3_accepts w' = s3_accepts w"
    and "fs w' = fs w"
  using assms
  by (auto simp: create_directory_def Let_def emit_def time_time_def split: if_splits)

lemma create_directory_Inl:
  "create_directory m p w = (Inl e, w') \<Longrightarrow> trace w' = trace w"
  by (auto simp: create_directory_def Let_def emit_def time_time_def split: if_splits)

lemma store_file_at_path_Inr:
  assumes "store_file_at_path m l r w = (Inr k, w')"
  shows "\<exists>contents. fs w l = Some (Leaf contents) \<and>
           trace w' = trace w @
             [LogDebug (''Uploading file '' @ l @ '' to '' @ r @ ''.''),
              S3Put \<lparr>s3_key = r, s3_body = contents,
                      s3_headers = [(''Content-Type'', ''application/octet-stream''),
                                    (''x-amz-meta-mtime'', str_int (epoch (clock w (ticks w))))],
                      s3_policy = ''private''\<rparr>]"
    and "k = r" and "ticks w' = Suc (ticks w)" and "clock w' = clock w"
    and "s3_accepts w' = s3_accepts w" and "fs w' = fs w"
  using assms
  by (auto simp: store_file_at_path_def Let_def emit_def time_time_def
           split: if_splits option.splits tree.splits)

lemma store_file_at_path_Inl:
  "store_file_at_path m l r w = (Inl e, w') \<Longrightarrow>
     trace w' = trace w @ [LogDebug (''Uploading file '' @ l @ '' to '' @ r @ ''.'')]"
  by (auto simp: store_file_at_path_def Let_def emit_def time_time_def
           split: if_splits option.splits tree.splits)


lemma archive_files_cases [case_names fail_archive fail_index fail_marker fail_upload_archive fail_upload_index ok]:
  fixes h m w
  obtains
    (fail_archive) e w1 where
      "create_archive h (local_path m) w = (Inl e, w1)"
      "archive_files h m w = (Inl e, w1)"
  | (fail_index) ap w1 e w2 where
      "create_archive h (local_path m) w = (Inr ap, w1)"
      "create_index_from_archive h ap w1 = (Inl e, w2)"
      "archive_files h m w = (Inl e, w2)"
  | (fail_marker) ap w1 ip w2 e w4 where
      "create_archive h (local_path m) w = (Inr ap, w1)"
      "create_index_from_archive h ap w1 = (Inr ip, w2)"
      "create_directory m (fst (get_prefix m [] w2)) (snd (get_prefix m [] w2)) = (Inl e, w4)"
      "archive_files h m w = (Inl e, w4)"
  | (fail_upload_archive) ap w1 ip w2 u w4 e w6 where
      "create_archive h (local_path m) w = (Inr ap, w1)"
      "create_index_from_archive h ap w1 = (Inr ip, w2)"
      "create_directory m (fst (get_prefix m [] w2)) (snd (get_prefix m [] w2)) = (Inr u, w4)"
      "store_file_at_path m ap (fst (get_prefix m [''archive.tar.gz''] w4))
         (snd (get_prefix m [''archive.tar.gz''] w4)) = (Inl e, w6)"
      "archive_files h m w = (Inl e, w6)"
  | (fail_upload_index) ap w1 ip w2 u w4 a w6 w7 e w9 where
      "create_archive h (local_path m) w = (Inr ap, w1)"
      "create_index_from_archive h ap w1 = (Inr ip, w2)"
      "create_directory m (fst (get_prefix m [] w2)) (snd (get_prefix m [] w2)) = (Inr u, w4)"
      "store_file_at_path m ap (fst (get_prefix m [''archive.tar.gz''] w4))
         (snd (get_prefix m [''archive.tar.gz''] w4)) = (Inr a, w6)"
      "w7 = emit (LogInfo (''Archive stored: '' @ generate_url h (bucket m) a (24*60*60))) w6"
      "store_file_at_path m ip (fst (get_prefix m [''index.tsv.txt''] w7))
         (snd (get_prefix m [''index.tsv.txt''] w7)) = (Inl e, w9)"
      "archive_files h m w = (Inl e, w9)"
  | (ok) ap w1 ip w2 u w4 a w6 w7 i w9 where
      "create_archive h (local_path m) w = (Inr ap, w1)"
      "create_index_from_archive h ap w1 = (Inr ip, w2)"
      "create_directory m (fst (get_prefix m [] w2)) (snd (get_prefix m [] w2)) = (Inr u, w4)"
      "store_file_at_path m ap (fst (get_prefix m [''archive.tar.gz''] w4))
         (snd (get_prefix m [''archive.tar.gz''] w4)) = (Inr a, w6)"
      "w7 = emit (LogInfo (''Archive stored: '' @ generate_url h (bucket m) a (24*60*60))) w6"
      "store_file_at_path m ip (fst (get_prefix m [''index.tsv.txt''] w7))
         (snd (get_prefix m [''index.tsv.txt''] w7)) = (Inr i, w9)"
      "archive_files h m w =
         (Inr (), emit (LogInfo ''Files archived'')
                    (emit (LogInfo (''Index stored: '' @ generate_url h (bucket m) i (24*60*60))) w9))"
proof -
  obtain r1 w1 where s1: "create_archive h (local_path m) w = (r1, w1)" by fastforce
  show thesis
  proof (cases r1)
    case (Inl e)
    with s1 show thesis by (intro fail_archive[of e w1]) (simp_all add: archive_files_def)
  next
    case r1: (Inr ap)
    obtain r2 w2 where s2: "create_index_from_archive h ap w1 = (r2, w2)" by fastforce
    show thesis
    proof (cases r2)
      case (Inl e)
      with s1 r1 s2 show thesis
        by (intro fail_index[of ap w1 e w2]) (simp_all add: archive_files_def)
    next
      case r2: (Inr ip)
      obtain r4 w4 where s4:
        "create_directory m (fst (get_prefix m [] w2)) (snd (get_prefix m [] w2)) = (r4, w4)"
        by fastforce
      show thesis
      proof (cases r4)
        case (Inl e)
        with s1 r1 s2 r2 s4 show thesis
          by (intro fail_marker[of ap w1 ip w2 e w4])
             (simp_all add: archive_files_def case_prod_beta)
      next
        case r4: (Inr u)
        obtain r6 w6 where s6:
          "store_file_at_path m ap (fst (get_prefix m [''archive.tar.gz''] w4))
             (snd (get_prefix m [''archive.tar.gz''] w4)) = (r6, w6)"
          by fastforce
        show thesis
        proof (cases r6)
          case (Inl e)
          with s1 r1 s2 r2 s4 r4 s6 show thesis
            by (intro fail_upload_archive[of ap w1 ip w2 u w4 e w6])
               (simp_all add: archive_files_def case_prod_beta)
        next
          case r6: (Inr a)
          define w7 where "w7 = emit (LogInfo (''Archive stored: '' @ generate_url h (bucket m) a (24*60*60))) w6"
          obtain r9 w9 where s9:
            "store_file_at_path m ip (fst (get_prefix m [''index.tsv.txt''] w7))
               (snd (get_prefix m [''index.tsv.txt''] w7)) = (r9, w9)"
            by fastforce
          show thesis
          proof (cases r9)
            case (Inl e)
            with s1 r1 s2 r2 s4 r4 s6 r6 s9 w7_def show thesis
              by (intro fail_upload_index[of ap w1 ip w2 u w4 a w6 w7 e w9])
                 (simp_all add: archive_files_def Let_def case_prod_beta)
          next
            case (Inr i)
            with s1 r1 s2 r2 s4 r4 s6 r6 s9 w7_def show thesis
              by (intro ok[of ap w1 ip w2 u w4 a w6 w7 i w9])
                 (simp_all add: archive_files_def Let_def case_prod_beta)
          qed
        qed
      qed
    qed
  qed
qed



lemma get_prefix_frame:
  "trace (snd (get_prefix m cs w)) = trace w"
  "ticks (snd (get_prefix m cs w)) = Suc (ticks w)"
  "clock (snd (get_prefix m cs w)) = clock w"
  by (simp_all add: get_prefix_eq)

lemma fst_get_prefix:
  "fst (get_prefix m cs w) =
     os_path_join (remote_path m) (strftime_Ymd (today (clock w (ticks w))) # cs)"
  by (simp add: get_prefix_eq)

lemma create_archive_obs:
  assumes "create_archive h path w = (r, w')"
  obtains X where "trace w' = trace w @ X" "puts X = []"
    "steps X = (case r of Inl e \<Rightarrow> [] | Inr t \<Rightarrow> [RunTar])"
proof (cases r)
  case (Inl e)
  with assms have "trace w' = trace w @ [LogDebug ''Creating archive.'']"
    by (simp add: create_archive_Inl)
  then show thesis using Inl by (intro that[of "[LogDebug ''Creating archive.'']"]) simp_all
next
  case (Inr t)
  with assms have "create_archive h path w = (Inr t, w')" by simp
  from create_archive_Inr(1)[OF this] show thesis
    by (rule that) (simp_all add: Inr)
qed

lemma create_index_obs:
  assumes "create_index_from_archive h a w = (r, w')"
  obtains X where "trace w' = trace w @ X" "puts X = []"
    "case r of Inl e \<Rightarrow> steps X = [] \<or> steps X = [ReadTar] | Inr t \<Rightarrow> steps X = [ReadTar]"
proof (cases r)
  case (Inl e)
  with assms have "create_index_from_archive h a w = (Inl e, w')" by simp
  from create_index_Inl[OF this] show thesis
  proof
    assume "trace w' = trace w @ [LogDebug ''Generating archive index.'']"
    then show thesis by (rule that) (simp_all add: Inl)
  next
    assume "trace w' = trace w @ [LogDebug ''Generating archive index.'', TarfileOpen a]"
    then show thesis by (rule that) (simp_all add: Inl)
  qed
next
  case (Inr t)
  with assms have "create_index_from_archive h a w = (Inr t, w')" by simp
  from create_index_Inr(1)[OF this] show thesis
    by (rule that) (simp_all add: Inr)
qed

lemma create_directory_obs:
  assumes "create_directory m p w = (Inr u, w')"
  obtains X where "trace w' = trace w @ X"
    "puts X = [\<lparr>s3_key = p, s3_body = [],
                s3_headers = [(''Content-Type'', ''application/x-directory''),
                              (''x-amz-meta-gid'', ''20''),
                              (''x-amz-meta-uid'', ''501''),
                              (''x-amz-meta-mode'', ''16877''),
                              (''x-amz-meta-mtime'', str_int (epoch (clock w (ticks w))))],
                s3_policy = ''private''\<rparr>]"
    "steps X = [PutMarker]"
  using create_directory_Inr(1)[OF assms] by (rule that) simp_all

lemma store_file_at_path_obs:
  assumes "store_file_at_path m l r w = (q, w')"
  obtains X contents where "trace w' = trace w @ X"
    "case q of Inl e \<Rightarrow> steps X = [] \<and> puts X = []
     | Inr k \<Rightarrow> steps X = [PutFile] \<and> fs w l = Some (Leaf contents) \<and>
         puts X = [\<lparr>s3_key = r, s3_body = contents,
                     s3_headers = [(''Content-Type'', ''application/octet-stream''),
                                   (''x-amz-meta-mtime'', str_int (epoch (clock w (ticks w))))],
                     s3_policy = ''private''\<rparr>]"
proof (cases q)
  case (Inl e)
  with assms have "store_file_at_path m l r w = (Inl e, w')" by simp
  from store_file_at_path_Inl[OF this] show thesis
    by (rule that) (simp_all add: Inl)
next
  case (Inr k)
  with assms have "store_file_at_path m l r w = (Inr k, w')" by simp
  from store_file_at_path_Inr(1)[OF this] obtain contents where
    c: "fs w l = Some (Leaf contents)" and
    t: "trace w' = trace w @
             [LogDebug (''Uploading file '' @ l @ '' to '' @ r @ ''.''),
              S3Put \<lparr>s3_key = r, s3_body = contents,
                      s3_headers = [(''Content-Type'', ''application/octet-stream''),
                                    (''x-amz-meta-mtime'', str_int (epoch (clock w (ticks w))))],
                      s3_policy = ''private''\<rparr>]"
    by blast
  from t show thesis by (rule that[where contents = contents]) (simp_all add: Inr c)
qed


section \<open>The stages of \<open>archive_files\<close>\<close>

lemma stage_indexed:
  assumes "create_archive h (local_path m) w = (Inr ap, w1)"
    and "create_index_from_archive h ap w1 = (Inr ip, w2)"
  obtains X where "trace w2 = trace w @ X" "steps X = [RunTar, ReadTar]" "puts X = []"
    "ticks w2 = ticks w" "clock w2 = clock w"
proof -
  obtain X1 where X1: "trace w1 = trace w @ X1" "puts X1 = []" "steps X1 = [RunTar]"
    using create_archive_obs[OF assms(1)] by (metis sum.simps(6))
  obtain X2 where X2: "trace w2 = trace w1 @ X2" "puts X2 = []" "steps X2 = [ReadTar]"
    using create_index_obs[OF assms(2)] by (metis sum.simps(6))
  show thesis
  proof (rule that[of "X1 @ X2"])
    show "trace w2 = trace w @ X1 @ X2" by (simp add: X1 X2)
    show "ticks w2 = ticks w" "clock w2 = clock w"
      using create_archive_Inr(2,3)[OF assms(1)] create_index_Inr(2,3)[OF assms(2)] by simp_all
  qed (simp_all add: steps_append puts_append X1 X2)
qed

lemma stage_marker:
  assumes "create_archive h (local_path m) w = (Inr ap, w1)"
    and "create_index_from_archive h ap w1 = (Inr ip, w2)"
    and "create_directory m (fst (get_prefix m [] w2)) (snd (get_prefix m [] w2)) = (Inr u, w4)"
  obtains X where "trace w4 = trace w @ X" "steps X = [RunTar, ReadTar, PutMarker]"
    "puts X = [marker_object (key_at m w 0 []) (epoch (clock w (ticks w + 1)))]"
    "ticks w4 = ticks w + 2" "clock w4 = clock w"
proof -
  obtain X where X: "trace w2 = trace w @ X" "steps X = [RunTar, ReadTar]" "puts X = []"
    "ticks w2 = ticks w" "clock w2 = clock w"
    using stage_indexed[OF assms(1,2)] by blast
  obtain X4 where X4: "trace w4 = trace w2 @ X4" "steps X4 = [PutMarker]"
    "puts X4 = [marker_object (key_at m w 0 []) (epoch (clock w (ticks w + 1)))]"
    using create_directory_obs[OF assms(3)]
    unfolding get_prefix_frame fst_get_prefix X(4,5) by (metis Suc_eq_plus1 add_0_right)
  show thesis
  proof (rule that[of "X @ X4"])
    show "trace w4 = trace w @ X @ X4" by (simp add: X X4)
    show "ticks w4 = ticks w + 2" "clock w4 = clock w"
      using create_directory_Inr(2,3)[OF assms(3)] by (simp_all add: get_prefix_frame X)
  qed (simp_all only: steps_append puts_append X X4 append.simps)
qed

lemma stage_archive_uploaded:
  assumes "create_archive h (local_path m) w = (Inr ap, w1)"
    and "create_index_from_archive h ap w1 = (Inr ip, w2)"
    and "create_directory m (fst (get_prefix m [] w2)) (snd (get_prefix m [] w2)) = (Inr u, w4)"
    and "store_file_at_path m ap (fst (get_prefix m [''archive.tar.gz''] w4))
           (snd (get_prefix m [''archive.tar.gz''] w4)) = (Inr a, w6)"
    and "w7 = emit (LogInfo msg) w6"
  obtains X ab where "trace w7 = trace w @ X" "steps X = [RunTar, ReadTar, PutMarker, PutFile]"
    "puts X = [marker_object (key_at m w 0 []) (epoch (clock w (ticks w + 1))),
               file_object (key_at m w 2 [''archive.tar.gz'']) ab (epoch (clock w (ticks w + 3)))]"
    "ticks w7 = ticks w + 4" "clock w7 = clock w"
proof -
  obtain X where X: "trace w4 = trace w @ X" "steps X = [RunTar, ReadTar, PutMarker]"
    "puts X = [marker_object (key_at m w 0 []) (epoch (clock w (ticks w + 1)))]"
    "ticks w4 = ticks w + 2" "clock w4 = clock w"
    using stage_marker[OF assms(1,2,3)] by blast
  have e: "Suc (ticks w + 2) = ticks w + 3" by simp
  obtain X6 ab where X6: "trace w6 = trace w4 @ X6" "steps X6 = [PutFile]"
    "puts X6 = [file_object (key_at m w 2 [''archive.tar.gz'']) ab (epoch (clock w (ticks w + 3)))]"
    using store_file_at_path_obs[OF assms(4)]
    unfolding get_prefix_frame fst_get_prefix X(4,5) e sum.case by metis
  show thesis
  proof (rule that[of "X @ X6 @ [LogInfo msg]" ab])
    show "trace w7 = trace w @ X @ X6 @ [LogInfo msg]" by (simp add: X X6 assms(5) emit_def)
    show "ticks w7 = ticks w + 4" "clock w7 = clock w"
      using store_file_at_path_Inr(3,4)[OF assms(4)]
      by (simp_all add: get_prefix_frame X assms(5) emit_def)
  qed (simp_all only: steps_append puts_append X X6 append.simps steps.simps puts.simps)
qed


lemma archive_files_run:
  assumes run: "archive_files h m w = (r, w')"
  obtains X ab ib where
    "trace w' = trace w @ X"
    "prefix (steps X) [RunTar, ReadTar, PutMarker, PutFile, PutFile]"
    "prefix (puts X)
       [marker_object (key_at m w 0 []) (epoch (clock w (ticks w + 1))),
        file_object (key_at m w 2 [''archive.tar.gz'']) ab (epoch (clock w (ticks w + 3))),
        file_object (key_at m w 4 [''index.tsv.txt'']) ib (epoch (clock w (ticks w + 5)))]"
    "r = Inr () \<longrightarrow>
       steps X = [RunTar, ReadTar, PutMarker, PutFile, PutFile] \<and>
       puts X =
         [marker_object (key_at m w 0 []) (epoch (clock w (ticks w + 1))),
          file_object (key_at m w 2 [''archive.tar.gz'']) ab (epoch (clock w (ticks w + 3))),
          file_object (key_at m w 4 [''index.tsv.txt'']) ib (epoch (clock w (ticks w + 5)))]"
proof (cases h m w rule: archive_files_cases)
  case (fail_archive e w1)
  with run have r: "r = Inl e" "w' = w1" by simp_all
  obtain X where "trace w1 = trace w @ X" "puts X = []" "steps X = []"
    using create_archive_obs[OF fail_archive(1)] by (metis sum.simps(5))
  then show thesis by (intro that[of X]) (simp_all add: r)
next
  case (fail_index ap w1 e w2)
  with run have r: "r = Inl e" "w' = w2" by simp_all
  obtain X1 where X1: "trace w1 = trace w @ X1" "puts X1 = []" "steps X1 = [RunTar]"
    using create_archive_obs[OF fail_index(1)] by (metis sum.simps(6))
  obtain X2 where X2: "trace w2 = trace w1 @ X2" "puts X2 = []"
    "steps X2 = [] \<or> steps X2 = [ReadTar]"
    using create_index_obs[OF fail_index(2)] by (metis sum.simps(5))
  show thesis
  proof (rule that[of "X1 @ X2"])
    show "trace w' = trace w @ X1 @ X2" by (simp add: r X1 X2)
    show "prefix (steps (X1 @ X2)) [RunTar, ReadTar, PutMarker, PutFile, PutFile]"
      using X2(3) by (auto simp: steps_append X1)
  qed (simp_all add: r puts_append X1 X2)
next
  case (fail_marker ap w1 ip w2 e w4)
  with run have r: "r = Inl e" "w' = w4" by simp_all
  obtain X where X: "trace w2 = trace w @ X" "steps X = [RunTar, ReadTar]" "puts X = []"
    using stage_indexed[OF fail_marker(1,2)] by blast
  have "trace w4 = trace w2"
    using create_directory_Inl[OF fail_marker(3)] by (simp add: get_prefix_frame)
  then show thesis by (intro that[of X]) (simp_all add: r X)
next
  case (fail_upload_archive ap w1 ip w2 u w4 e w6)
  with run have r: "r = Inl e" "w' = w6" by simp_all
  obtain X where X: "trace w4 = trace w @ X" "steps X = [RunTar, ReadTar, PutMarker]"
    "puts X = [marker_object (key_at m w 0 []) (epoch (clock w (ticks w + 1)))]"
    using stage_marker[OF fail_upload_archive(1,2,3)] by blast
  obtain X6 where X6: "trace w6 = trace w4 @ X6" "steps X6 = []" "puts X6 = []"
    using store_file_at_path_obs[OF fail_upload_archive(4)]
    unfolding get_prefix_frame sum.case by metis
  show thesis
  proof (rule that[of "X @ X6"])
    show "trace w' = trace w @ X @ X6" by (simp add: r X X6)
  qed (simp_all add: r steps_append puts_append X X6)
next
  case (fail_upload_index ap w1 ip w2 u w4 a w6 w7 e w9)
  with run have r: "r = Inl e" "w' = w9" by simp_all
  obtain X ab where X: "trace w7 = trace w @ X" "steps X = [RunTar, ReadTar, PutMarker, PutFile]"
    "puts X = [marker_object (key_at m w 0 []) (epoch (clock w (ticks w + 1))),
               file_object (key_at m w 2 [''archive.tar.gz'']) ab (epoch (clock w (ticks w + 3)))]"
    using stage_archive_uploaded[OF fail_upload_index(1,2,3,4,5)] by blast
  obtain X9 where X9: "trace w9 = trace w7 @ X9" "steps X9 = []" "puts X9 = []"
    using store_file_at_path_obs[OF fail_upload_index(6)]
    unfolding get_prefix_frame sum.case by metis
  show thesis
  proof (rule that[of "X @ X9" ab])
    show "trace w' = trace w @ X @ X9" by (simp add: r X X9)
  qed (simp_all add: r steps_append puts_append X X9)
next
  case (ok ap w1 ip w2 u w4 a w6 w7 i w9)
  with run have r: "r = Inr ()"
    "w' = emit (LogInfo ''Files archived'')
           (emit (LogInfo (''Index stored: '' @ generate_url h (bucket m) i (24*60*60))) w9)"
    by simp_all
  obtain X ab where X: "trace w7 = trace w @ X" "steps X = [RunTar, ReadTar, PutMarker, PutFile]"
    "puts X = [marker_object (key_at m w 0 []) (epoch (clock w (ticks w + 1))),
               file_object (key_at m w 2 [''archive.tar.gz'']) ab (epoch (clock w (ticks w + 3)))]"
    "ticks w7 = ticks w + 4" "clock w7 = clock w"
    using stage_archive_uploaded[OF ok(1,2,3,4,5)] by blast
  have e: "Suc (ticks w + 4) = ticks w + 5" by simp
  obtain X9 ib where X9: "trace w9 = trace w7 @ X9" "steps X9 = [PutFile]"
    "puts X9 = [file_object (key_at m w 4 [''index.tsv.txt'']) ib (epoch (clock w (ticks w + 5)))]"
    using store_file_at_path_obs[OF ok(6)]
    unfolding get_prefix_frame fst_get_prefix X(4,5) e sum.case by metis
  show thesis
  proof (rule that[of "X @ X9 @
        [LogInfo (''Index stored: '' @ generate_url h (bucket m) i (24*60*60)),
         LogInfo ''Files archived'']" ab ib])
    show "trace w' = trace w @ X @ X9 @
        [LogInfo (''Index stored: '' @ generate_url h (bucket m) i (24*60*60)),
         LogInfo ''Files archived'']"
      by (simp add: r emit_def X X9)
  qed (simp_all only: steps_append puts_append X X9 append.simps steps.simps puts.simps
         prefix_order.order_refl simp_thms)
qed


section \<open>The example run, evaluated\<close>

lemma untar_name:
  "ex_untar_from nm sz acc (concat (map (\<lambda>c. [CHR ''n'', c]) name) @ r) =
     ex_untar_from (nm @ name) sz acc r"
  by (induction name arbitrary: nm) simp_all

lemma untar_size:
  "ex_untar_from nm sz acc (replicate k CHR ''#'' @ r) = ex_untar_from nm (sz + k) acc r"
  by (induction k arbitrary: sz) simp_all

lemma untar_members:
  "ex_untar_from [] 0 acc (concat (map ex_targz_member ms)) = Some (acc @ ms)"
  by (induction ms arbitrary: acc) (simp_all add: ex_targz_member_def untar_name untar_size)

lemma ex_untar_targz: "ex_untar (ex_targz ms) = Some ms"
  using untar_members[of "[]" ms] by (simp add: ex_untar_def ex_targz_def)

lemma write_members_ok:
  "list_all (\<lambda>mb. writable_name h (member_name mb)) members \<Longrightarrow>
   write_members h members out =
     (None, out @ concat (map (\<lambda>mb. member_name mb @ [CHR 0x09] @ str_nat (member_size mb) @ [CHR 0x0A])
                              members))"
  by (induction members arbitrary: out) simp_all

lemma ex_members_writable: "list_all (\<lambda>mb. writable_name ex_host (member_name mb)) ex_members"
  by (simp add: ex_members_def writable_name_def is_ascii_def)


lemma ex_create_archive:
  "create_archive ex_host ''/home/u/Desktop'' (ex_world c) =
     (Inr ''/tmp/tmpA'',
      \<lparr>fs = [''/home/u/Desktop'' \<mapsto> Node ex_desktop, ''/tmp/tmpA'' \<mapsto> Leaf (ex_targz ex_members)],
       home = ''/home/u'', tmp_names = [''/tmp/tmpB''], clock = c, ticks = 0,
       s3_accepts = (\<lambda>cr rq. True),
       trace = [LogDebug ''Creating archive.'',
                Popen ''tar -zcvf /tmp/tmpA *'' ''/home/u/Desktop'',
                LogDebug ''Waiting for archive to be completed.'',
                LogDebug ''Archive written to /tmp/tmpA.'']\<rparr>)"
  by (simp add: create_archive_def mkstemp_def emit_def ex_host_def ex_world_def ex_sh_def
        startswith_def glob_star_def ex_desktop_def ex_members_def Let_def eval_nat_numeral)


lemma ex_create_index:
  "create_index_from_archive ex_host ''/tmp/tmpA''
     \<lparr>fs = [''/home/u/Desktop'' \<mapsto> Node ex_desktop, ''/tmp/tmpA'' \<mapsto> Leaf (ex_targz ex_members)],
       home = ''/home/u'', tmp_names = [''/tmp/tmpB''], clock = c, ticks = 0,
       s3_accepts = (\<lambda>cr rq. True), trace = tr\<rparr> =
     (Inr ''/tmp/tmpB'',
      \<lparr>fs = [''/home/u/Desktop'' \<mapsto> Node ex_desktop, ''/tmp/tmpA'' \<mapsto> Leaf (ex_targz ex_members),
             ''/tmp/tmpB'' \<mapsto> Leaf (snd (write_members ex_host ex_members []))],
       home = ''/home/u'', tmp_names = [], clock = c, ticks = 0,
       s3_accepts = (\<lambda>cr rq. True),
       trace = tr @ [LogDebug ''Generating archive index.'', TarfileOpen ''/tmp/tmpA'',
                     LogDebug ''Index written to /tmp/tmpB.'']\<rparr>)"
proof -
  have r: "tarfile_getmembers ex_host (ex_targz ex_members) = Some ex_members"
    by (simp add: ex_host_def ex_untar_targz)
  show ?thesis
    by (simp add: create_index_from_archive_def mkstemp_def emit_def Let_def r
          write_members_ok[OF ex_members_writable])
qed

lemma ex_run_ok: "fst (archive_files ex_host ex_manager (ex_world c)) = Inr ()"
  apply (simp add: archive_files_def)
  apply (simp add: ex_manager_def ex_create_archive)
  apply (simp add: ex_create_index)
  apply (simp add: get_prefix_def datetime_now_def create_directory_def time_time_def
     store_file_at_path_def emit_def Let_def case_prod_beta del: os_path_join.simps)
  done


section \<open>Facts shared by the claims\<close>

lemma strftime_2024_03_05: "strftime_Ymd \<lparr>year = 2024, month = 3, day = 5\<rparr> = ''2024-03-05''"
  by (simp add: strftime_Ymd_def str_nat.simps zfill_def digit_def)

lemma strftime_2024_03_06: "strftime_Ymd \<lparr>year = 2024, month = 3, day = 6\<rparr> = ''2024-03-06''"
  by (simp add: strftime_Ymd_def str_nat.simps zfill_def digit_def)

lemma ex_run_pair:
  "archive_files ex_host ex_manager (ex_world c) =
     (Inr (), snd (archive_files ex_host ex_manager (ex_world c)))"
  using ex_run_ok[of c] by (cases "archive_files ex_host ex_manager (ex_world c)") simp

lemma run_objects:
  assumes "archive_files h m w = (Inr u, w')"
  obtains ab ib where
    "puts (since w w') =
       [marker_object (key_at m w 0 []) (epoch (clock w (ticks w + 1))),
        file_object (key_at m w 2 [''archive.tar.gz'']) ab (epoch (clock w (ticks w + 3))),
        file_object (key_at m w 4 [''index.tsv.txt'']) ib (epoch (clock w (ticks w + 5)))]"
proof -
  obtain X ab ib where X: "trace w' = trace w @ X"
    and P: "Inr u = Inr () \<longrightarrow>
       steps X = [RunTar, ReadTar, PutMarker, PutFile, PutFile] \<and>
       puts X =
         [marker_object (key_at m w 0 []) (epoch (clock w (ticks w + 1))),
          file_object (key_at m w 2 [''archive.tar.gz'']) ab (epoch (clock w (ticks w + 3))),
          file_object (key_at m w 4 [''index.tsv.txt'']) ib (epoch (clock w (ticks w + 5)))]"
    using archive_files_run[OF assms] by blast
  have "since w w' = X" using X by (rule since_append)
  with P show thesis by (intro that[of ab ib]) simp
qed

lemma run_keys:
  assumes "archive_files h m w = (Inr u, w')"
  shows "map s3_key (puts (since w w')) =
           [key_at m w 0 [], key_at m w 2 [''archive.tar.gz''], key_at m w 4 [''index.tsv.txt'']]"
proof -
  from run_objects[OF assms] obtain ab ib where
    "puts (since w w') =
       [marker_object (key_at m w 0 []) (epoch (clock w (ticks w + 1))),
        file_object (key_at m w 2 [''archive.tar.gz'']) ab (epoch (clock w (ticks w + 3))),
        file_object (key_at m w 4 [''index.tsv.txt'']) ib (epoch (clock w (ticks w + 5)))]" .
  then show ?thesis by (simp del: os_path_join.simps)
qed

lemma ex_keys_day:
  "map s3_key (puts (since (ex_world clock_day)
       (snd (archive_files ex_host ex_manager (ex_world clock_day))))) =
     [''desktop/2024-03-05'',
      ''desktop/2024-03-05/archive.tar.gz'',
      ''desktop/2024-03-05/index.tsv.txt'']"
  unfolding run_keys[OF ex_run_pair[of clock_day]]
  by (simp add: ex_manager_def ex_world_def clock_day_def strftime_2024_03_05
        startswith_def endswith_def)

lemma ex_keys_midnight:
  "map s3_key (puts (since (ex_world clock_midnight)
       (snd (archive_files ex_host ex_manager (ex_world clock_midnight))))) =
     [''desktop/2024-03-05'',
      ''desktop/2024-03-06/archive.tar.gz'',
      ''desktop/2024-03-06/index.tsv.txt'']"
  unfolding run_keys[OF ex_run_pair[of clock_midnight]]
  by (simp add: ex_manager_def ex_world_def clock_midnight_def strftime_2024_03_05
        strftime_2024_03_06 startswith_def endswith_def)




section \<open>Object keys\<close>

text \<open>
  C1 (as amended). In a completed run with bucket key prefix \<open>desktop\<close> whose three
  \<open>get_prefix\<close> calls read the date 2024-03-05, the keys written are, in order,
  \<open>desktop/2024-03-05\<close> for the directory marker (\<open>os.path.join\<close> of two components ends
  with no slash), \<open>desktop/2024-03-05/archive.tar.gz\<close> and
  \<open>desktop/2024-03-05/index.tsv.txt\<close>.
\<close>

theorem archive_keys_2024_03_05:
  assumes "archive_files h m w = (Inr u, w')"
    and "remote_path m = ''desktop''"
    and "today (clock w (ticks w)) = \<lparr>year = 2024, month = 3, day = 5\<rparr>"
    and "today (clock w (ticks w + 2)) = \<lparr>year = 2024, month = 3, day = 5\<rparr>"
    and "today (clock w (ticks w + 4)) = \<lparr>year = 2024, month = 3, day = 5\<rparr>"
  shows "map s3_key (puts (since w w')) =
           [''desktop/2024-03-05'',
            ''desktop/2024-03-05/archive.tar.gz'',
            ''desktop/2024-03-05/index.tsv.txt'']"
  unfolding run_keys[OF assms(1)] using assms(2-)
  by (simp add: strftime_2024_03_05 startswith_def endswith_def)

text \<open>The example run satisfies every hypothesis of the theorem.\<close>

theorem archive_keys_2024_03_05_witness:
  "archive_files ex_host ex_manager (ex_world clock_day) =
     (Inr (), snd (archive_files ex_host ex_manager (ex_world clock_day))) \<and>
   remote_path ex_manager = ''desktop'' \<and>
   today (clock (ex_world clock_day) (ticks (ex_world clock_day))) = \<lparr>year = 2024, month = 3, day = 5\<rparr> \<and>
   today (clock (ex_world clock_day) (ticks (ex_world clock_day) + 2)) = \<lparr>year = 2024, month = 3, day = 5\<rparr> \<and>
   today (clock (ex_world clock_day) (ticks (ex_world clock_day) + 4)) = \<lparr>year = 2024, month = 3, day = 5\<rparr> \<and>
   map s3_key (puts (since (ex_world clock_day) (snd (archive_files ex_host ex_manager (ex_world clock_day))))) =
     [''desktop/2024-03-05'',
      ''desktop/2024-03-05/archive.tar.gz'',
      ''desktop/2024-03-05/index.tsv.txt'']"
proof -
  have h1: "archive_files ex_host ex_manager (ex_world clock_day) =
     (Inr (), snd (archive_files ex_host ex_manager (ex_world clock_day)))"
    by (rule ex_run_pair)
  have h2: "remote_path ex_manager = ''desktop''"
    by (simp add: ex_manager_def)
  have h3: "today (clock (ex_world clock_day) (ticks (ex_world clock_day))) = \<lparr>year = 2024, month = 3, day = 5\<rparr>"
    and h4: "today (clock (ex_world clock_day) (ticks (ex_world clock_day) + 2)) = \<lparr>year = 2024, month = 3, day = 5\<rparr>"
    and h5: "today (clock (ex_world clock_day) (ticks (ex_world clock_day) + 4)) = \<lparr>year = 2024, month = 3, day = 5\<rparr>"
    by (simp_all add: ex_world_def clock_day_def)
  show ?thesis
    by (intro conjI h1 h2 h3 h4 h5 archive_keys_2024_03_05[OF h1 h2 h3 h4 h5])
qed

text \<open>
  The keys of the example run, on 2024-03-05 with prefix \<open>desktop\<close>, are not the three
  keys with a marker key that ends in a slash.
\<close>

theorem marker_key_trailing_slash_counterexample:
  "map s3_key (puts (since (ex_world clock_day) (snd (archive_files ex_host ex_manager (ex_world clock_day))))) \<noteq>
     [''desktop/2024-03-05/'',
      ''desktop/2024-03-05/archive.tar.gz'',
      ''desktop/2024-03-05/index.tsv.txt'']"
  unfolding ex_keys_day by simp

text \<open>
  C2 (as amended). Each key is built from its own clock reading: the first, third and
  fifth reading after the archive and index exist. When these three readings show one
  date \<open>d\<close>, the directory-marker key, the archive key and the manifest key of a completed
  run all carry the date segment \<open>strftime_Ymd d\<close>.
\<close>

theorem archive_keys_same_date:
  assumes "archive_files h m w = (Inr u, w')"
    and "today (clock w (ticks w)) = d"
    and "today (clock w (ticks w + 2)) = d"
    and "today (clock w (ticks w + 4)) = d"
  shows "map s3_key (puts (since w w')) =
           [os_path_join (remote_path m) [strftime_Ymd d],
            os_path_join (remote_path m) [strftime_Ymd d, ''archive.tar.gz''],
            os_path_join (remote_path m) [strftime_Ymd d, ''index.tsv.txt'']]"
  unfolding run_keys[OF assms(1)] using assms(2-)
  by (simp del: os_path_join.simps)

text \<open>The example run on a clock that stays on one day.\<close>

theorem archive_keys_same_date_witness:
  "archive_files ex_host ex_manager (ex_world clock_day) =
     (Inr (), snd (archive_files ex_host ex_manager (ex_world clock_day))) \<and>
   today (clock (ex_world clock_day) (ticks (ex_world clock_day))) = \<lparr>year = 2024, month = 3, day = 5\<rparr> \<and>
   today (clock (ex_world clock_day) (ticks (ex_world clock_day) + 2)) = \<lparr>year = 2024, month = 3, day = 5\<rparr> \<and>
   today (clock (ex_world clock_day) (ticks (ex_world clock_day) + 4)) = \<lparr>year = 2024, month = 3, day = 5\<rparr> \<and>
   map s3_key (puts (since (ex_world clock_day) (snd (archive_files ex_host ex_manager (ex_world clock_day))))) =
     [os_path_join (remote_path ex_manager) [strftime_Ymd \<lparr>year = 2024, month = 3, day = 5\<rparr>],
      os_path_join (remote_path ex_manager) [strftime_Ymd \<lparr>year = 2024, month = 3, day = 5\<rparr>, ''archive.tar.gz''],
      os_path_join (remote_path ex_manager) [strftime_Ymd \<lparr>year = 2024, month = 3, day = 5\<rparr>, ''index.tsv.txt'']]"
proof -
  have h1: "archive_files ex_host ex_manager (ex_world clock_day) =
     (Inr (), snd (archive_files ex_host ex_manager (ex_world clock_day)))"
    by (rule ex_run_pair)
  have h3: "today (clock (ex_world clock_day) (ticks (ex_world clock_day))) = \<lparr>year = 2024, month = 3, day = 5\<rparr>"
    and h4: "today (clock (ex_world clock_day) (ticks (ex_world clock_day) + 2)) = \<lparr>year = 2024, month = 3, day = 5\<rparr>"
    and h5: "today (clock (ex_world clock_day) (ticks (ex_world clock_day) + 4)) = \<lparr>year = 2024, month = 3, day = 5\<rparr>"
    by (simp_all add: ex_world_def clock_day_def)
  show ?thesis
    by (intro conjI h1 h3 h4 h5 archive_keys_same_date[OF h1 h3 h4 h5])
qed

text \<open>
  A run whose clock passes midnight after the marker is written: the marker lies under
  2024-03-05, the archive and the manifest under 2024-03-06.
\<close>

theorem date_partition_midnight_counterexample:
  "map s3_key (puts (since (ex_world clock_midnight)
       (snd (archive_files ex_host ex_manager (ex_world clock_midnight))))) =
     [''desktop/2024-03-05'',
      ''desktop/2024-03-06/archive.tar.gz'',
      ''desktop/2024-03-06/index.tsv.txt'']"
  by (rule ex_keys_midnight)

section \<open>Order of the steps\<close>

text \<open>
  C9. Whatever the outcome of a run, the steps it took (starting tar, reading the archive
  for the index, writing the marker, writing a file object, writing a file object) are
  an initial part of exactly that sequence, each at most once, and the keys written are
  an initial part of marker key, archive key, manifest key: no file object precedes the
  marker, and the archive object precedes the manifest. A run that completes has taken
  all five steps.
\<close>

theorem archive_files_order:
  "prefix (steps (since w (snd (archive_files h m w))))
     [RunTar, ReadTar, PutMarker, PutFile, PutFile] \<and>
   prefix (map s3_key (puts (since w (snd (archive_files h m w)))))
     [key_at m w 0 [], key_at m w 2 [''archive.tar.gz''], key_at m w 4 [''index.tsv.txt'']] \<and>
   (fst (archive_files h m w) = Inr () \<longrightarrow>
      steps (since w (snd (archive_files h m w))) = [RunTar, ReadTar, PutMarker, PutFile, PutFile])"
proof -
  obtain r w' where run: "archive_files h m w = (r, w')" by fastforce
  obtain X ab ib where X: "trace w' = trace w @ X"
    and S: "prefix (steps X) [RunTar, ReadTar, PutMarker, PutFile, PutFile]"
    and P: "prefix (puts X)
       [marker_object (key_at m w 0 []) (epoch (clock w (ticks w + 1))),
        file_object (key_at m w 2 [''archive.tar.gz'']) ab (epoch (clock w (ticks w + 3))),
        file_object (key_at m w 4 [''index.tsv.txt'']) ib (epoch (clock w (ticks w + 5)))]"
    and R: "r = Inr () \<longrightarrow>
       steps X = [RunTar, ReadTar, PutMarker, PutFile, PutFile] \<and>
       puts X =
         [marker_object (key_at m w 0 []) (epoch (clock w (ticks w + 1))),
          file_object (key_at m w 2 [''archive.tar.gz'']) ab (epoch (clock w (ticks w + 3))),
          file_object (key_at m w 4 [''index.tsv.txt'']) ib (epoch (clock w (ticks w + 5)))]"
    using archive_files_run[OF run] by blast
  have s: "since w (snd (archive_files h m w)) = X"
    using X by (simp add: run since_append)
  from map_mono_prefix[OF P, of s3_key]
  have K: "prefix (map s3_key (puts X))
     [key_at m w 0 [], key_at m w 2 [''archive.tar.gz''], key_at m w 4 [''index.tsv.txt'']]"
    by (simp del: os_path_join.simps)
  show ?thesis unfolding s using S K R by (simp add: run del: os_path_join.simps)
qed

text \<open>The example run completes and takes the five steps.\<close>

theorem archive_files_order_witness:
  "fst (archive_files ex_host ex_manager (ex_world clock_day)) = Inr () \<and>
   steps (since (ex_world clock_day) (snd (archive_files ex_host ex_manager (ex_world clock_day)))) =
     [RunTar, ReadTar, PutMarker, PutFile, PutFile]"
  using archive_files_order[of "ex_world clock_day" ex_host ex_manager] ex_run_ok[of clock_day]
  by blast

section \<open>Access policy of the marker\<close>

text \<open>
  C10. In a completed run the directory marker (the object of content type
  \<open>application/x-directory\<close>) is written with the canned policy \<open>private\<close>, the same
  policy as the archive and manifest objects.
\<close>

theorem marker_policy_private:
  assumes "archive_files h m w = (Inr u, w')"
  shows "map (\<lambda>obj. (map_of (s3_headers obj) ''Content-Type'', s3_policy obj)) (puts (since w w')) =
           [(Some ''application/x-directory'', ''private''),
            (Some ''application/octet-stream'', ''private''),
            (Some ''application/octet-stream'', ''private'')]"
proof -
  from run_objects[OF assms] obtain ab ib where
    "puts (since w w') =
       [marker_object (key_at m w 0 []) (epoch (clock w (ticks w + 1))),
        file_object (key_at m w 2 [''archive.tar.gz'']) ab (epoch (clock w (ticks w + 3))),
        file_object (key_at m w 4 [''index.tsv.txt'']) ib (epoch (clock w (ticks w + 5)))]" .
  then show ?thesis by (simp del: os_path_join.simps)
qed

text \<open>The example run.\<close>

theorem marker_policy_private_witness:
  "archive_files ex_host ex_manager (ex_world clock_day) =
     (Inr (), snd (archive_files ex_host ex_manager (ex_world clock_day))) \<and>
   map (\<lambda>obj. (map_of (s3_headers obj) ''Content-Type'', s3_policy obj))
     (puts (since (ex_world clock_day) (snd (archive_files ex_host ex_manager (ex_world clock_day))))) =
           [(Some ''application/x-directory'', ''private''),
            (Some ''application/octet-stream'', ''private''),
            (Some ''application/octet-stream'', ''private'')]"
  using marker_policy_private[OF ex_run_pair[of clock_day]] ex_run_pair[of clock_day]
  by blast


section \<open>The manifest\<close>





section \<open>Credential defaults\<close>

text \<open>
  C4 (the code at the failing input). With no file at \<open>~/.passwd-s3fs\<close> the handler binds
  \<open>access_default\<close> and \<open>key_default\<close>; \<open>secret_default\<close> stays unbound, and building the
  argument parser raises \<open>NameError\<close> for it. The run ends there, whatever the command
  line holds, with the world untouched: no request reaches the storage service.
\<close>

theorem main_without_credential_file:
  assumes "fs w (expanduser w ''~/.passwd-s3fs'') = None"
  shows "main h a w = (Inl (NameError ''secret_default''), w)"
  using assms
  by (simp add: main_def load_credential_defaults_def get_access_key_and_secret_from_s3fs_def
        load_name_def Let_def)

text \<open>A command line that names both keys, in a world without the credential file.\<close>

theorem main_without_credential_file_witness:
  "fs (ex_world clock_day) (expanduser (ex_world clock_day) ''~/.passwd-s3fs'') = None \<and>
   main ex_host ex_args (ex_world clock_day) = (Inl (NameError ''secret_default''), ex_world clock_day)"
proof -
  have h: "fs (ex_world clock_day) (expanduser (ex_world clock_day) ''~/.passwd-s3fs'') = None"
    by (simp add: ex_world_def expanduser_def startswith_def)
  from h main_without_credential_file[OF h] show ?thesis by blast
qed

section \<open>The archiver\<close>



section \<open>Uploads\<close>

text \<open>
  C7. When the local file exists and the service accepts the request,
  \<open>store_file_at_path\<close> writes exactly one object: its key is the remote path, its body
  the whole contents of the local file, its content type \<open>application/octet-stream\<close>, its
  \<open>mtime\<close> metadata the decimal of \<open>int(time.time())\<close> read during the call, its policy
  \<open>private\<close>.
\<close>

theorem store_file_at_path_object:
  assumes "fs w l = Some (Leaf contents)"
    and "s3_accepts w (boto m) (PutObject (file_object r contents (epoch (clock w (ticks w)))))"
  shows "\<exists>w' obj. store_file_at_path m l r w = (Inr r, w') \<and>
           puts (since w w') = [obj] \<and>
           s3_key obj = r \<and>
           s3_body obj = contents \<and>
           map_of (s3_headers obj) ''Content-Type'' = Some ''application/octet-stream'' \<and>
           map_of (s3_headers obj) ''x-amz-meta-mtime'' = Some (str_int (epoch (clock w (ticks w)))) \<and>
           s3_policy obj = ''private''"
  using assms
  by (simp add: store_file_at_path_def time_time_def emit_def Let_def since_def)

text \<open>An upload of the example file.\<close>

theorem store_file_at_path_object_witness:
  "fs spec_world ''/tmp/in.tar.gz'' = Some (Leaf ''two members'') \<and>
   s3_accepts spec_world (boto ex_manager)
     (PutObject (file_object ''k'' ''two members'' (epoch (clock spec_world (ticks spec_world))))) \<and>
   (\<exists>w' obj. store_file_at_path ex_manager ''/tmp/in.tar.gz'' ''k'' spec_world = (Inr ''k'', w') \<and>
           puts (since spec_world w') = [obj] \<and>
           s3_key obj = ''k'' \<and>
           s3_body obj = ''two members'' \<and>
           map_of (s3_headers obj) ''Content-Type'' = Some ''application/octet-stream'' \<and>
           map_of (s3_headers obj) ''x-amz-meta-mtime'' = Some ''1709640000'' \<and>
           s3_policy obj = ''private'')"
proof -
  have h1: "fs spec_world ''/tmp/in.tar.gz'' = Some (Leaf ''two members'')"
    by (simp add: spec_world_def)
  have h2: "s3_accepts spec_world (boto ex_manager)
     (PutObject (file_object ''k'' ''two members'' (epoch (clock spec_world (ticks spec_world)))))"
    by (simp add: spec_world_def)
  have e: "str_int (epoch (clock spec_world (ticks spec_world))) = ''1709640000''"
    by (simp add: spec_world_def clock_day_def str_int_def str_nat.simps digit_def)
  from h1 h2 store_file_at_path_object[OF h1 h2] show ?thesis
    unfolding e by blast
qed

text \<open>
  C8. When the service accepts the request, \<open>create_directory\<close> writes exactly one object:
  its key is the prefix as given, its body is empty, and its headers are the content type
  \<open>application/x-directory\<close>, group id 20, owner id 501, mode 16877 and the decimal of
  \<open>int(time.time())\<close> read during the call as \<open>mtime\<close>.
\<close>

theorem create_directory_object:
  assumes "s3_accepts w (boto m) (PutObject (marker_object p (epoch (clock w (ticks w)))))"
  shows "\<exists>w' obj. create_directory m p w = (Inr (), w') \<and>
           puts (since w w') = [obj] \<and>
           s3_key obj = p \<and>
           length (s3_body obj) = 0 \<and>
           s3_headers obj =
             [(''Content-Type'', ''application/x-directory''),
              (''x-amz-meta-gid'', ''20''),
              (''x-amz-meta-uid'', ''501''),
              (''x-amz-meta-mode'', ''16877''),
              (''x-amz-meta-mtime'', str_int (epoch (clock w (ticks w))))]"
  using assms
  by (simp add: create_directory_def time_time_def emit_def Let_def since_def)

text \<open>A marker written at the clock's first reading.\<close>

theorem create_directory_object_witness:
  "s3_accepts spec_world (boto ex_manager)
     (PutObject (marker_object ''desktop/2024-03-05'' (epoch (clock spec_world (ticks spec_world))))) \<and>
   (\<exists>w' obj. create_directory ex_manager ''desktop/2024-03-05'' spec_world = (Inr (), w') \<and>
           puts (since spec_world w') = [obj] \<and>
           s3_key obj = ''desktop/2024-03-05'' \<and>
           length (s3_body obj) = 0 \<and>
           s3_headers obj =
             [(''Content-Type'', ''application/x-directory''),
              (''x-amz-meta-gid'', ''20''),
              (''x-amz-meta-uid'', ''501''),
              (''x-amz-meta-mode'', ''16877''),
              (''x-amz-meta-mtime'', ''1709640000'')])"
proof -
  have h: "s3_accepts spec_world (boto ex_manager)
     (PutObject (marker_object ''desktop/2024-03-05'' (epoch (clock spec_world (ticks spec_world)))))"
    by (simp add: spec_world_def)
  have e: "str_int (epoch (clock spec_world (ticks spec_world))) = ''1709640000''"
    by (simp add: spec_world_def clock_day_def str_int_def str_nat.simps digit_def)
  from h create_directory_object[OF h] show ?thesis
    unfolding e by blast
qed


section \<open>What the archive holds\<close>





end
